theory Spec2Isabelle
  imports Complex_Main "HOL-Library.Word"
begin

unbundle bit_operations_syntax

section \<open>Values crossing the JavaScript boundary\<close>

text \<open>
  The addon \<^verbatim>\<open>cs2_window_tracker.cpp\<close> exports nine functions to JavaScript through
  N-API. Win32 types are machine words: \<^verbatim>\<open>DWORD\<close>, \<^verbatim>\<open>UINT\<close> and \<^verbatim>\<open>LONG\<close> have 32
  bits, handles (\<^verbatim>\<open>HWND\<close>, \<^verbatim>\<open>HWINEVENTHOOK\<close>) and \<^verbatim>\<open>LONG_PTR\<close> have 64 bits, and
  \<^verbatim>\<open>NULL\<close> is the word 0. Signed quantities are read with \<open>sint\<close> and compared
  with \<open>word_sless\<close>.
\<close>

type_synonym DWORD = "32 word"
type_synonym LONG = "32 word"
type_synonym HWND = "64 word"
type_synonym HWINEVENTHOOK = "64 word"
type_synonym LONG_PTR = "64 word"

text \<open>
  JavaScript values as far as the addon reads or builds them. A number is a real
  (the double's rounding is not modelled), a BigInt is an unbounded integer, a function
  is known by its identity, an object is the list of the properties that were set on it.
\<close>

datatype jsval =
    JSUndefined
  | JSNull
  | JSBoolean bool
  | JSNumber real
  | JSString string
  | JSBigInt int
  | JSFunction nat
  | JSObject "(string \<times> jsval) list"

text \<open>
  A pending JavaScript exception: a \<^verbatim>\<open>Napi::TypeError\<close> with its message, or the
  \<^verbatim>\<open>Napi::Error\<close> of \<^verbatim>\<open>StartWinEventHook\<close>, whose message is the given prefix followed by
  \<^verbatim>\<open>std::to_string\<close> of the code of \<^verbatim>\<open>GetLastError\<close>.
\<close>

datatype js_error =
    JsTypeError string
  | JsError string DWORD

text \<open>
  \<^verbatim>\<open>Napi::Number::Uint32Value\<close>: the number truncated towards zero, then its low 32 bits.
\<close>

definition Uint32Value :: "real \<Rightarrow> DWORD" where
  "Uint32Value x = word_of_int (if 0 \<le> x then \<lfloor>x\<rfloor> else \<lceil>x\<rceil>)"

text \<open>\<^verbatim>\<open>Napi::BigInt::Int64Value\<close> followed by \<^verbatim>\<open>reinterpret_cast<HWND>\<close>.\<close>

definition Int64Value :: "int \<Rightarrow> HWND" where
  "Int64Value b = word_of_int b"

text \<open>\<^verbatim>\<open>Napi::BigInt::New(env, reinterpret_cast<int64_t>(hwnd))\<close>.\<close>

definition BigInt_New :: "HWND \<Rightarrow> jsval" where
  "BigInt_New h = JSBigInt (sint h)"

section \<open>Window lookup by process\<close>

text \<open>
  \<^verbatim>\<open>WS_EX_TOOLWINDOW\<close> comes from \<^verbatim>\<open>winuser.h\<close> of the Windows SDK.
\<close>

definition WS_EX_TOOLWINDOW :: LONG_PTR where
  "WS_EX_TOOLWINDOW = 0x80"

record RECT =
  rc_left :: LONG
  rc_top :: LONG
  rc_right :: LONG
  rc_bottom :: LONG

text \<open>
  One top-level window as \<^verbatim>\<open>EnumProc\<close> sees it: its handle and what the operating system
  answers for it to \<^verbatim>\<open>IsWindowVisible\<close>, \<^verbatim>\<open>GetWindowThreadProcessId\<close>,
  \<^verbatim>\<open>GetWindowLongPtr(GWL_EXSTYLE)\<close>, \<^verbatim>\<open>GetWindowTextW\<close> (the returned length) and
  \<^verbatim>\<open>GetWindowRect\<close> (\<open>None\<close> when the call fails). The desktop is the list of
  these windows in the order in which \<^verbatim>\<open>EnumWindows\<close> visits them.
\<close>

record window =
  hwnd :: HWND
  IsWindowVisible :: bool
  windowPid :: DWORD
  exStyle :: LONG_PTR
  titleLen :: int
  WindowRect :: "RECT option"

text \<open>The helper \<^verbatim>\<open>GetWindowArea\<close>: a 32-bit \<^verbatim>\<open>int\<close> product, 0 when the query fails.\<close>

definition GetWindowArea :: "window \<Rightarrow> LONG" where
  "GetWindowArea w =
     (case WindowRect w of
        Some rect \<Rightarrow> (rc_right rect - rc_left rect) * (rc_bottom rect - rc_top rect)
      | None \<Rightarrow> 0)"

record EnumData =
  pid :: DWORD
  bestHwnd :: HWND
  bestArea :: LONG

text \<open>
  \<^verbatim>\<open>EnumProc\<close> returns the \<^verbatim>\<open>BOOL\<close> that tells \<^verbatim>\<open>EnumWindows\<close> whether to go on
  (always \<^verbatim>\<open>TRUE\<close>) and the updated \<^verbatim>\<open>EnumData\<close> behind \<^verbatim>\<open>lParam\<close>.
\<close>

definition EnumProc :: "window \<Rightarrow> EnumData \<Rightarrow> bool \<times> EnumData" where
  "EnumProc w ed =
     (if \<not> IsWindowVisible w then (True, ed)
      else if windowPid w \<noteq> pid ed then (True, ed)
      else if exStyle w AND WS_EX_TOOLWINDOW \<noteq> 0 then (True, ed)
      else if titleLen w = 0 then (True, ed)
      else
        let area = (case WindowRect w of
                      Some rect \<Rightarrow> (rc_right rect - rc_left rect) * (rc_bottom rect - rc_top rect)
                    | None \<Rightarrow> 0)
        in if bestArea ed <s area
           then (True, ed\<lparr>bestHwnd := hwnd w, bestArea := area\<rparr>)
           else (True, ed))"

text \<open>
  \<^verbatim>\<open>EnumWindows\<close> calls the callback on each window in turn and stops as soon as the
  callback returns \<^verbatim>\<open>FALSE\<close>.
\<close>

fun EnumWindows :: "(window \<Rightarrow> 'a \<Rightarrow> bool \<times> 'a) \<Rightarrow> window list \<Rightarrow> 'a \<Rightarrow> 'a" where
  "EnumWindows f [] d = d"
| "EnumWindows f (w # ws) d =
     (case f w d of (go, d') \<Rightarrow> if go then EnumWindows f ws d' else d')"

definition FindWindowByPid :: "window list \<Rightarrow> jsval list \<Rightarrow> js_error + jsval" where
  "FindWindowByPid desktop info =
     (case info of
        JSNumber n # _ \<Rightarrow>
          let targetPid = Uint32Value n;
              data = EnumWindows EnumProc desktop
                       \<lparr>pid = targetPid, bestHwnd = 0, bestArea = 0\<rparr>
          in if bestHwnd data \<noteq> 0 then Inr (BigInt_New (bestHwnd data)) else Inr JSNull
      | _ \<Rightarrow> Inl (JsTypeError ''Expected number (pid)''))"

text \<open>
  The specification's reading of a qualifying window: visible, owned by the process, not a
  tool window, and with a non-empty title.
\<close>

definition qualifies :: "DWORD \<Rightarrow> window \<Rightarrow> bool" where
  "qualifies p w \<longleftrightarrow>
     IsWindowVisible w \<and> windowPid w = p \<and> exStyle w AND WS_EX_TOOLWINDOW = 0 \<and> titleLen w \<noteq> 0"


text \<open>
  The specification's choice among the candidates \<open>cs\<close>: the first window, in
  enumeration order, whose area is the largest of all and exceeds the bound \<open>b\<close>.
\<close>

definition largest_first :: "LONG \<Rightarrow> window list \<Rightarrow> window option" where
  "largest_first b cs =
     find (\<lambda>w. b <s GetWindowArea w \<and> (\<forall>v \<in> set cs. GetWindowArea v \<le>s GetWindowArea w)) cs"

text \<open>
  The area of the specification: width times height of the outer rectangle, as integers,
  and 0 when the rectangle cannot be read. The product the code computes is this number
  whenever width, height and area fit in a 32-bit \<^verbatim>\<open>int\<close>.
\<close>

definition window_area :: "window \<Rightarrow> int" where
  "window_area w =
     (case WindowRect w of
        Some rect \<Rightarrow> (sint (rc_right rect) - sint (rc_left rect)) *
                     (sint (rc_bottom rect) - sint (rc_top rect))
      | None \<Rightarrow> 0)"

definition fits_int :: "int \<Rightarrow> bool" where
  "fits_int k \<longleftrightarrow> - (2 ^ 31) \<le> k \<and> k < 2 ^ 31"

definition area_fits_int :: "window \<Rightarrow> bool" where
  "area_fits_int w =
     (case WindowRect w of
        Some rect \<Rightarrow>
          fits_int (sint (rc_right rect) - sint (rc_left rect)) \<and>
          fits_int (sint (rc_bottom rect) - sint (rc_top rect)) \<and>
          fits_int ((sint (rc_right rect) - sint (rc_left rect)) *
                    (sint (rc_bottom rect) - sint (rc_top rect)))
      | None \<Rightarrow> True)"

text \<open>
  The window that the specification selects among the candidates \<open>cs\<close>: the first one,
  in enumeration order, whose area is the largest of all, provided that area is positive.
\<close>

definition largest_window :: "window list \<Rightarrow> window option" where
  "largest_window cs =
     find (\<lambda>w. 0 < window_area w \<and> (\<forall>v \<in> set cs. window_area v \<le> window_area w)) cs"

section \<open>DPI scale\<close>

text \<open>
  What the operating system offers to \<^verbatim>\<open>GetDpiScaleForHwnd\<close>: whether
  \<^verbatim>\<open>GetModuleHandleW(L"user32.dll")\<close> yields a module, the function that
  \<^verbatim>\<open>GetProcAddress(user32, "GetDpiForWindow")\<close> finds (\<open>None\<close> before Windows 10
  1607), and the answers of \<^verbatim>\<open>GetDC\<close> and of \<^verbatim>\<open>GetDeviceCaps(hdc, LOGPIXELSX)\<close>.
\<close>

record dpi_os =
  user32 :: bool
  GetDpiForWindow :: "(HWND \<Rightarrow> DWORD) option"
  GetDC :: "HWND \<Rightarrow> 64 word"
  GetDeviceCaps_LOGPIXELSX :: "64 word \<Rightarrow> LONG"

text \<open>
  \<^verbatim>\<open>dpi / 96.0\<close> is a division of doubles, whose result is the double nearest to the
  quotient. The model does not compute that rounding: the division of doubles is the
  parameter \<open>fdiv\<close>, applied to the values of the two operands (integers of 32 bits
  and 96 are doubles). \<^verbatim>\<open>UINT dpi\<close> is read unsigned and \<^verbatim>\<open>int dpi\<close> signed.
\<close>

definition GetDpiScaleForHwnd ::
  "(real \<Rightarrow> real \<Rightarrow> real) \<Rightarrow> dpi_os \<Rightarrow> jsval list \<Rightarrow> js_error + jsval" where
  "GetDpiScaleForHwnd fdiv os info =
     (case info of
        JSBigInt b # _ \<Rightarrow>
          let h = Int64Value b
          in if \<not> user32 os then Inr (JSNumber 1.0)
             else (case GetDpiForWindow os of
                     Some proc \<Rightarrow> let dpi = proc h in Inr (JSNumber (fdiv (real (unat dpi)) 96.0))
                   | None \<Rightarrow>
                       let hdc = GetDC os h;
                           dpi = GetDeviceCaps_LOGPIXELSX os hdc
                       in Inr (JSNumber (fdiv (real_of_int (sint dpi)) 96.0)))
      | _ \<Rightarrow> Inl (JsTypeError ''Expected BigInt (hwnd)''))"

text \<open>
  The two facilities of the specification. The per-window query is available when
  \<^verbatim>\<open>GetDpiForWindow\<close> can be resolved in \<^verbatim>\<open>user32.dll\<close>. The system-wide query is
  available for a window when \<^verbatim>\<open>GetDC\<close> hands out a device context from which
  \<^verbatim>\<open>GetDeviceCaps\<close> can read; the code does not test this.
\<close>

definition per_window_dpi_available :: "dpi_os \<Rightarrow> bool" where
  "per_window_dpi_available os \<longleftrightarrow> user32 os \<and> GetDpiForWindow os \<noteq> None"

definition system_dpi_available :: "dpi_os \<Rightarrow> HWND \<Rightarrow> bool" where
  "system_dpi_available os h \<longleftrightarrow> GetDC os h \<noteq> 0"

text \<open>
  The division of doubles where the quotient is itself a double, as 0 / 96, 192 / 96
  and 144 / 96 are.
\<close>

definition exact_quotient :: "real \<Rightarrow> real \<Rightarrow> real" where
  "exact_quotient a b = a / b"

section \<open>Window activation\<close>

text \<open>
  The calls of \<^verbatim>\<open>ForceActivateWindow\<close> that act on the desktop, in the order in which
  they are made. \<^verbatim>\<open>AttachThreadInput\<close> is recorded with its two thread ids, its
  \<^verbatim>\<open>fAttach\<close> flag and whether it succeeded; \<^verbatim>\<open>ShowWindow\<close> is always called with
  \<^verbatim>\<open>SW_RESTORE\<close>.
\<close>

datatype api_call =
    AttachThreadInput DWORD DWORD bool bool
  | ShowWindow HWND
  | SetForegroundWindow HWND
  | BringWindowToTop HWND
  | SetFocus HWND

text \<open>
  The answers of the operating system during one activation: \<^verbatim>\<open>IsWindow\<close>, the
  foreground window before and after the attempt, the thread owning a window
  (\<^verbatim>\<open>GetWindowThreadProcessId(h, NULL)\<close>), the calling thread, whether attaching and
  detaching succeed, and \<^verbatim>\<open>IsIconic\<close>.
\<close>

record activate_os =
  IsWindow :: "HWND \<Rightarrow> bool"
  foreground_before :: HWND
  foreground_after :: HWND
  thread_of :: "HWND \<Rightarrow> DWORD"
  GetCurrentThreadId :: DWORD
  attach_ok :: bool
  detach_ok :: bool
  IsIconic :: "HWND \<Rightarrow> bool"

definition ForceActivateWindow ::
  "activate_os \<Rightarrow> jsval list \<Rightarrow> (js_error + jsval) \<times> api_call list" where
  "ForceActivateWindow os info =
     (case info of
        JSBigInt b # _ \<Rightarrow>
          let h = Int64Value b
          in if \<not> IsWindow os h then (Inr (JSBoolean False), [])
             else
               let fgHwnd = foreground_before os;
                   fgThreadId = (if fgHwnd \<noteq> 0 then thread_of os fgHwnd else 0);
                   targetThreadId = thread_of os h;
                   currentThreadId = GetCurrentThreadId os;
                   try_attach = (fgThreadId \<noteq> 0 \<and> fgThreadId \<noteq> currentThreadId);
                   attached = (try_attach \<and> attach_ok os);
                   calls1 = (if try_attach
                             then [AttachThreadInput currentThreadId fgThreadId True (attach_ok os)]
                             else []);
                   calls2 = (if IsIconic os h then [ShowWindow h] else []);
                   calls3 = [SetForegroundWindow h, BringWindowToTop h, SetFocus h];
                   calls4 = (if attached
                             then [AttachThreadInput currentThreadId fgThreadId False (detach_ok os)]
                             else []);
                   newFgHwnd = foreground_after os;
                   success = (newFgHwnd = h)
               in (Inr (JSBoolean success), calls1 @ calls2 @ calls3 @ calls4)
      | _ \<Rightarrow> (Inl (JsTypeError ''Expected BigInt (hwnd)''), []))"

text \<open>
  The thread pairs that a sequence of calls leaves linked without a later request to
  unlink them: a successful attach opens a pair, a detach call for the same two threads
  closes it.
\<close>

fun unmatched_attaches :: "api_call list \<Rightarrow> (DWORD \<times> DWORD) list \<Rightarrow> (DWORD \<times> DWORD) list" where
  "unmatched_attaches [] open_links = open_links"
| "unmatched_attaches (AttachThreadInput a b True ok # cs) open_links =
     unmatched_attaches cs (if ok then (a, b) # open_links else open_links)"
| "unmatched_attaches (AttachThreadInput a b False ok # cs) open_links =
     unmatched_attaches cs (removeAll (a, b) open_links)"
| "unmatched_attaches (c # cs) open_links = unmatched_attaches cs open_links"

fun is_attach_call :: "api_call \<Rightarrow> bool" where
  "is_attach_call (AttachThreadInput a b f ok) = True"
| "is_attach_call c = False"


section \<open>The WinEvent subscription\<close>

definition EVENT_OBJECT_LOCATIONCHANGE :: DWORD where "EVENT_OBJECT_LOCATIONCHANGE = 0x800B"
definition EVENT_SYSTEM_MOVESIZESTART :: DWORD where "EVENT_SYSTEM_MOVESIZESTART = 0x000A"
definition EVENT_SYSTEM_MOVESIZEEND :: DWORD where "EVENT_SYSTEM_MOVESIZEEND = 0x000B"
definition EVENT_SYSTEM_MINIMIZESTART :: DWORD where "EVENT_SYSTEM_MINIMIZESTART = 0x0016"
definition EVENT_SYSTEM_MINIMIZEEND :: DWORD where "EVENT_SYSTEM_MINIMIZEEND = 0x0017"
definition EVENT_SYSTEM_FOREGROUND :: DWORD where "EVENT_SYSTEM_FOREGROUND = 0x0003"
definition EVENT_OBJECT_DESTROY :: DWORD where "EVENT_OBJECT_DESTROY = 0x8001"

text \<open>\<^verbatim>\<open>OBJID_WINDOW\<close> and \<^verbatim>\<open>CHILDID_SELF\<close> come from \<^verbatim>\<open>winuser.h\<close>.\<close>

definition OBJID_WINDOW :: LONG where "OBJID_WINDOW = 0"
definition CHILDID_SELF :: LONG where "CHILDID_SELF = 0"

text \<open>
  \<^verbatim>\<open>struct HookState\<close>. The \<^verbatim>\<open>Napi::FunctionReference\<close> holds the identity of the
  JavaScript function it keeps alive, or nothing when it is empty.
\<close>

record HookState =
  targetPid :: DWORD
  jsCallback :: "nat option"
  hookHandle1 :: HWINEVENTHOOK
  hookHandle2 :: HWINEVENTHOOK
  hookHandle3 :: HWINEVENTHOOK
  hookHandle4 :: HWINEVENTHOOK

text \<open>
  The state shared by start, stop and the callback: the global pointer
  \<^verbatim>\<open>g_hookState\<close> (\<open>None\<close> for \<^verbatim>\<open>nullptr\<close>) and, on the side of the operating
  system, the hook tokens that are registered and not yet released.
\<close>

record world =
  g_hookState :: "HookState option"
  live_hooks :: "HWINEVENTHOOK set"

definition initial_world :: world where
  "initial_world = \<lparr>g_hookState = None, live_hooks = {}\<rparr>"

text \<open>
  \<^verbatim>\<open>SetWinEventHook\<close> for the event range \<open>eventMin\<close> to \<open>eventMax\<close>. Whether the
  registration succeeds is up to the operating system: \<open>reply\<close> is the token it returns,
  \<^verbatim>\<open>NULL\<close> on failure. A token that is returned is live from then on.
\<close>

definition SetWinEventHook ::
  "DWORD \<Rightarrow> DWORD \<Rightarrow> HWINEVENTHOOK \<Rightarrow> world \<Rightarrow> HWINEVENTHOOK \<times> world" where
  "SetWinEventHook eventMin eventMax reply w =
     (reply, if reply \<noteq> 0 then w\<lparr>live_hooks := insert reply (live_hooks w)\<rparr> else w)"

definition UnhookWinEvent :: "HWINEVENTHOOK \<Rightarrow> world \<Rightarrow> world" where
  "UnhookWinEvent h w = w\<lparr>live_hooks := live_hooks w - {h}\<rparr>"

text \<open>
  The answers of the operating system to one call of \<^verbatim>\<open>StartWinEventHook\<close>: the four
  tokens and the code that \<^verbatim>\<open>GetLastError\<close> reports afterwards.
\<close>

record hook_replies =
  reply1 :: HWINEVENTHOOK
  reply2 :: HWINEVENTHOOK
  reply3 :: HWINEVENTHOOK
  reply4 :: HWINEVENTHOOK
  lastError :: DWORD

definition StartWinEventHook ::
  "hook_replies \<Rightarrow> jsval list \<Rightarrow> world \<Rightarrow> (js_error + jsval) \<times> world" where
  "StartWinEventHook os info w =
     (case info of
        JSNumber n # JSFunction cb # _ \<Rightarrow>
          let w0 = (case g_hookState w of
                      None \<Rightarrow> w
                    | Some old \<Rightarrow>
                        let u1 = (if hookHandle1 old \<noteq> 0 then UnhookWinEvent (hookHandle1 old) w else w);
                            u2 = (if hookHandle2 old \<noteq> 0 then UnhookWinEvent (hookHandle2 old) u1 else u1);
                            u3 = (if hookHandle3 old \<noteq> 0 then UnhookWinEvent (hookHandle3 old) u2 else u2);
                            u4 = (if hookHandle4 old \<noteq> 0 then UnhookWinEvent (hookHandle4 old) u3 else u3)
                        in u4\<lparr>g_hookState := None\<rparr>);
              st = \<lparr>targetPid = Uint32Value n, jsCallback = Some cb,
                    hookHandle1 = 0, hookHandle2 = 0, hookHandle3 = 0, hookHandle4 = 0\<rparr>;
              (h1, w1) = SetWinEventHook EVENT_OBJECT_LOCATIONCHANGE EVENT_OBJECT_DESTROY (reply1 os) w0;
              (h2, w2) = SetWinEventHook EVENT_SYSTEM_MOVESIZESTART EVENT_SYSTEM_MOVESIZEEND (reply2 os) w1;
              (h3, w3) = SetWinEventHook EVENT_SYSTEM_MINIMIZESTART EVENT_SYSTEM_MINIMIZEEND (reply3 os) w2;
              (h4, w4) = SetWinEventHook EVENT_SYSTEM_FOREGROUND EVENT_SYSTEM_FOREGROUND (reply4 os) w3;
              st' = st\<lparr>hookHandle1 := h1, hookHandle2 := h2, hookHandle3 := h3, hookHandle4 := h4\<rparr>
          in if hookHandle1 st' = 0 \<and> hookHandle2 st' = 0 \<and> hookHandle3 st' = 0 \<and> hookHandle4 st' = 0
             then (Inl (JsError ''Failed to set WinEvent hooks. Error code: '' (lastError os)),
                   w4\<lparr>g_hookState := None\<rparr>)
             else (Inr JSUndefined, w4\<lparr>g_hookState := Some st'\<rparr>)
      | _ \<Rightarrow> (Inl (JsTypeError ''Expected (number pid, function callback)''), w))"

definition StopWinEventHook :: "jsval list \<Rightarrow> world \<Rightarrow> (js_error + jsval) \<times> world" where
  "StopWinEventHook info w =
     (case g_hookState w of
        None \<Rightarrow> (Inr JSUndefined, w)
      | Some st \<Rightarrow>
          let (s1, u1) = (if hookHandle1 st \<noteq> 0
                          then (st\<lparr>hookHandle1 := 0\<rparr>, UnhookWinEvent (hookHandle1 st) w) else (st, w));
              (s2, u2) = (if hookHandle2 s1 \<noteq> 0
                          then (s1\<lparr>hookHandle2 := 0\<rparr>, UnhookWinEvent (hookHandle2 s1) u1) else (s1, u1));
              (s3, u3) = (if hookHandle3 s2 \<noteq> 0
                          then (s2\<lparr>hookHandle3 := 0\<rparr>, UnhookWinEvent (hookHandle3 s2) u2) else (s2, u2));
              (s4, u4) = (if hookHandle4 s3 \<noteq> 0
                          then (s3\<lparr>hookHandle4 := 0\<rparr>, UnhookWinEvent (hookHandle4 s3) u3) else (s3, u3))
          in (Inr JSUndefined, u4\<lparr>g_hookState := None\<rparr>))"

text \<open>
  One raw notification, with the parameters of \<^verbatim>\<open>WinEventProc\<close>.
\<close>

record win_event =
  hWinEventHook :: HWINEVENTHOOK
  event :: DWORD
  ev_hwnd :: HWND
  idObject :: LONG
  idChild :: LONG
  dwEventThread :: DWORD
  dwmsTimeStamp :: DWORD

text \<open>The \<^verbatim>\<open>switch\<close> of \<^verbatim>\<open>WinEventProc\<close>; \<open>None\<close> is its \<^verbatim>\<open>default\<close> branch.\<close>

definition eventType :: "DWORD \<Rightarrow> string option" where
  "eventType ev =
     (if ev = EVENT_OBJECT_LOCATIONCHANGE then Some ''locationchange''
      else if ev = EVENT_SYSTEM_MOVESIZESTART then Some ''movestart''
      else if ev = EVENT_SYSTEM_MOVESIZEEND then Some ''moveend''
      else if ev = EVENT_SYSTEM_MINIMIZESTART then Some ''minimizestart''
      else if ev = EVENT_SYSTEM_MINIMIZEEND then Some ''minimizeend''
      else if ev = EVENT_OBJECT_DESTROY then Some ''destroy''
      else None)"

text \<open>
  \<^verbatim>\<open>WinEventProc\<close> reads the shared state and calls the JavaScript callback at most
  once: the result is that call, the function called and the event object passed to it.

  The local \<^verbatim>\<open>DWORD windowPid\<close> is declared without an initialiser, and the result of
  \<^verbatim>\<open>GetWindowThreadProcessId(hwnd, &windowPid)\<close> is not tested. \<open>pid_of\<close> is the
  answer of that call: the pid it stores for a window, or \<open>None\<close> when it fails (the
  window is already destroyed) and stores nothing. \<open>stale\<close> is the value that the
  uninitialised local holds in that case.
\<close>

definition WinEventProc ::
  "(HWND \<Rightarrow> DWORD option) \<Rightarrow> DWORD \<Rightarrow> world \<Rightarrow> win_event \<Rightarrow> (nat \<times> jsval) option" where
  "WinEventProc pid_of stale w e =
     (case g_hookState w of
        None \<Rightarrow> None
      | Some st \<Rightarrow>
          if idObject e \<noteq> OBJID_WINDOW \<or> idChild e \<noteq> CHILDID_SELF then None
          else if event e = EVENT_SYSTEM_FOREGROUND then
            (let wpid = (case pid_of (ev_hwnd e) of Some p \<Rightarrow> p | None \<Rightarrow> stale)
             in case jsCallback st of
                  None \<Rightarrow> None
                | Some cb \<Rightarrow>
                    Some (cb, JSObject [(''type'', JSString ''foreground''),
                                        (''hwnd'', BigInt_New (ev_hwnd e)),
                                        (''pid'', JSNumber (real (unat wpid)))]))
          else
            (let wpid = (case pid_of (ev_hwnd e) of Some p \<Rightarrow> p | None \<Rightarrow> stale)
             in if wpid \<noteq> targetPid st then None
                else (case eventType (event e) of
                        None \<Rightarrow> None
                      | Some t \<Rightarrow>
                          (case jsCallback st of
                             None \<Rightarrow> None
                           | Some cb \<Rightarrow>
                               Some (cb, JSObject [(''type'', JSString t),
                                                   (''hwnd'', BigInt_New (ev_hwnd e))])))))"

text \<open>
  The callback invocations caused by a sequence of notifications, in order; each
  notification comes with the value its uninitialised local would hold.
\<close>

definition deliver ::
  "(HWND \<Rightarrow> DWORD option) \<Rightarrow> world \<Rightarrow> (DWORD \<times> win_event) list \<Rightarrow> (nat \<times> jsval) list" where
  "deliver pid_of w es = List.map_filter (\<lambda>(stale, e). WinEventProc pid_of stale w e) es"

text \<open>
  Sequences of calls from JavaScript. A call that throws leaves a state from which the
  caller may go on.
\<close>

datatype hook_op = Start hook_replies "jsval list" | Stop "jsval list"

fun apply_op :: "hook_op \<Rightarrow> world \<Rightarrow> (js_error + jsval) \<times> world" where
  "apply_op (Start os info) w = StartWinEventHook os info w"
| "apply_op (Stop info) w = StopWinEventHook info w"

fun run :: "hook_op list \<Rightarrow> world \<Rightarrow> world" where
  "run [] w = w"
| "run (c # cs) w = run cs (snd (apply_op c w))"

text \<open>The functions that a sequence of calls hands over as handlers.\<close>

fun op_handlers :: "hook_op \<Rightarrow> nat list" where
  "op_handlers (Start os (JSNumber n # JSFunction cb # rest)) = [cb]"
| "op_handlers c = []"

text \<open>
  The two states of the specification. Stopped: no \<^verbatim>\<open>HookState\<close> and no live token.
  Live: a \<^verbatim>\<open>HookState\<close> with a handler, whose non-null handles are exactly the live
  tokens, at least one of them.
\<close>

definition hook_tokens :: "HookState \<Rightarrow> HWINEVENTHOOK set" where
  "hook_tokens st =
     set (filter (\<lambda>h. h \<noteq> 0) [hookHandle1 st, hookHandle2 st, hookHandle3 st, hookHandle4 st])"

definition Stopped :: "world \<Rightarrow> bool" where
  "Stopped w \<longleftrightarrow> g_hookState w = None \<and> live_hooks w = {}"

definition Live :: "world \<Rightarrow> bool" where
  "Live w \<longleftrightarrow>
     (case g_hookState w of
        None \<Rightarrow> False
      | Some st \<Rightarrow> jsCallback st \<noteq> None \<and> live_hooks w = hook_tokens st \<and> live_hooks w \<noteq> {})"

text \<open>The seven values of \<^verbatim>\<open>type\<close> in the wire shape of an event.\<close>

definition event_kinds :: "string list" where
  "event_kinds = [''foreground'', ''locationchange'', ''movestart'', ''moveend'',
                  ''minimizestart'', ''minimizeend'', ''destroy'']"


section \<open>Concrete desktops\<close>

text \<open>A visible, titled window of process 7 whose outer rectangle has width 0.\<close>

definition zero_width_window :: window where
  "zero_width_window =
     \<lparr>hwnd = 0x1234, IsWindowVisible = True, windowPid = 7, exStyle = 0, titleLen = 5,
      WindowRect = Some \<lparr>rc_left = 100, rc_top = 100, rc_right = 100, rc_bottom = 300\<rparr>\<rparr>"

text \<open>
  Three visible, titled windows of process 7, of areas 100, 200 and 200.
\<close>

definition two_windows :: "window list" where
  "two_windows =
     [\<lparr>hwnd = 1, IsWindowVisible = True, windowPid = 7, exStyle = 0, titleLen = 3,
       WindowRect = Some \<lparr>rc_left = 0, rc_top = 0, rc_right = 10, rc_bottom = 10\<rparr>\<rparr>,
      \<lparr>hwnd = 2, IsWindowVisible = True, windowPid = 7, exStyle = 0, titleLen = 4,
       WindowRect = Some \<lparr>rc_left = 5, rc_top = 5, rc_right = 25, rc_bottom = 15\<rparr>\<rparr>,
      \<lparr>hwnd = 3, IsWindowVisible = True, windowPid = 7, exStyle = 0, titleLen = 4,
       WindowRect = Some \<lparr>rc_left = 0, rc_top = 0, rc_right = 20, rc_bottom = 10\<rparr>\<rparr>]"

text \<open>A visible, titled window of process 7 for which \<^verbatim>\<open>GetWindowRect\<close> fails.\<close>

definition rectless_window :: window where
  "rectless_window =
     \<lparr>hwnd = 9, IsWindowVisible = True, windowPid = 7, exStyle = 0, titleLen = 5,
      WindowRect = None\<rparr>"


section \<open>Derived views of the subscription\<close>

text \<open>
  The state after the teardown that both \<^verbatim>\<open>StartWinEventHook\<close> and
  \<^verbatim>\<open>StopWinEventHook\<close> perform on an existing \<^verbatim>\<open>HookState\<close>: its non-null handles
  are unhooked and the global pointer is reset.
\<close>

definition released :: "world \<Rightarrow> world" where
  "released w =
     (case g_hookState w of
        None \<Rightarrow> w
      | Some st \<Rightarrow> w\<lparr>g_hookState := None, live_hooks := live_hooks w - hook_tokens st\<rparr>)"

text \<open>The tokens among the four answers of the operating system.\<close>

definition reply_tokens :: "hook_replies \<Rightarrow> HWINEVENTHOOK set" where
  "reply_tokens os = set (filter (\<lambda>h. h \<noteq> 0) [reply1 os, reply2 os, reply3 os, reply4 os])"

text \<open>The \<^verbatim>\<open>HookState\<close> that a start with these answers builds.\<close>

definition installed :: "hook_replies \<Rightarrow> real \<Rightarrow> nat \<Rightarrow> HookState" where
  "installed os n cb =
     \<lparr>targetPid = Uint32Value n, jsCallback = Some cb,
      hookHandle1 = reply1 os, hookHandle2 = reply2 os,
      hookHandle3 = reply3 os, hookHandle4 = reply4 os\<rparr>"

text \<open>The function that \<^verbatim>\<open>WinEventProc\<close> would call, if any.\<close>

definition current_handler :: "world \<Rightarrow> nat option" where
  "current_handler w = (case g_hookState w of None \<Rightarrow> None | Some st \<Rightarrow> jsCallback st)"

section \<open>Concrete subscriptions\<close>

text \<open>
  Answers of the operating system in which one, three and none of the four registrations
  succeed.
\<close>

definition one_hook :: hook_replies where
  "one_hook = \<lparr>reply1 = 0, reply2 = 0, reply3 = 0, reply4 = 0x51, lastError = 0\<rparr>"

definition three_hooks :: hook_replies where
  "three_hooks = \<lparr>reply1 = 0, reply2 = 0x61, reply3 = 0x62, reply4 = 0x63, lastError = 87\<rparr>"

definition no_hook :: hook_replies where
  "no_hook = \<lparr>reply1 = 0, reply2 = 0, reply3 = 0, reply4 = 0, lastError = 5\<rparr>"

text \<open>
  A notification for the window object itself, and a desktop on which window
  \<open>0x100\<close> belongs to process 7, window \<open>0x300\<close> is already destroyed, and every
  other window belongs to process 9.
\<close>

definition notification :: "DWORD \<Rightarrow> HWND \<Rightarrow> win_event" where
  "notification code h = \<lparr>hWinEventHook = 0x51, event = code, ev_hwnd = h, idObject = 0, idChild = 0,
               dwEventThread = 1, dwmsTimeStamp = 0\<rparr>"

definition owner_of :: "HWND \<Rightarrow> DWORD option" where
  "owner_of h = (if h = 0x100 then Some 7 else if h = 0x300 then None else Some 9)"

section \<open>Concrete systems for the queries\<close>

text \<open>
  A system with \<^verbatim>\<open>GetDpiForWindow\<close>, one without it, a process in which
  \<^verbatim>\<open>user32.dll\<close> is not loaded, and a system without \<^verbatim>\<open>GetDpiForWindow\<close> on
  which \<^verbatim>\<open>GetDC\<close> fails and \<^verbatim>\<open>GetDeviceCaps\<close> answers 0 for the null device context.
\<close>

definition modern_desktop :: dpi_os where
  "modern_desktop =
     \<lparr>user32 = True, GetDpiForWindow = Some (\<lambda>h. if h = 0x100 then 192 else 96),
      GetDC = (\<lambda>h. 0x77), GetDeviceCaps_LOGPIXELSX = (\<lambda>hdc. 120)\<rparr>"

definition legacy_desktop :: dpi_os where
  "legacy_desktop =
     \<lparr>user32 = True, GetDpiForWindow = None,
      GetDC = (\<lambda>h. 0x77), GetDeviceCaps_LOGPIXELSX = (\<lambda>hdc. if hdc = 0x77 then 144 else 0)\<rparr>"

definition bare_process :: dpi_os where
  "bare_process =
     \<lparr>user32 = False, GetDpiForWindow = None,
      GetDC = (\<lambda>h. 0), GetDeviceCaps_LOGPIXELSX = (\<lambda>hdc. 0)\<rparr>"

definition failing_desktop :: dpi_os where
  "failing_desktop =
     \<lparr>user32 = True, GetDpiForWindow = None,
      GetDC = (\<lambda>h. 0), GetDeviceCaps_LOGPIXELSX = (\<lambda>hdc. if hdc = 0 then 0 else 96)\<rparr>"

text \<open>
  A desktop on which window \<open>0x200\<close>, of thread 5, is in the foreground, window
  \<open>0x100\<close> is minimized, the caller runs on thread 4, and no window \<open>0x300\<close> exists.
\<close>

definition busy_desktop :: activate_os where
  "busy_desktop =
     \<lparr>IsWindow = (\<lambda>h. h = 0x100 \<or> h = 0x200), foreground_before = 0x200,
      foreground_after = 0x100, thread_of = (\<lambda>h. if h = 0x200 then 5 else 6),
      GetCurrentThreadId = 4, attach_ok = True, detach_ok = True, IsIconic = (\<lambda>h. h = 0x100)\<rparr>"

section \<open>Window lookup: the selected window\<close>

lemma EnumProc_qualifies:
  "EnumProc w ed =
     (True, if qualifies (pid ed) w \<and> bestArea ed <s GetWindowArea w
            then ed\<lparr>bestHwnd := hwnd w, bestArea := GetWindowArea w\<rparr> else ed)"
  by (simp add: EnumProc_def qualifies_def GetWindowArea_def Let_def)

lemma exists_max:
  "cs \<noteq> [] \<Longrightarrow> \<exists>w \<in> set cs. \<forall>v \<in> set cs. GetWindowArea v \<le>s GetWindowArea w"
proof (induction cs)
  case Nil then show ?case by simp
next
  case (Cons c cs)
  show ?case
  proof (cases "cs = []")
    case True then show ?thesis by simp
  next
    case False
    with Cons obtain w where w: "w \<in> set cs" "\<forall>v \<in> set cs. GetWindowArea v \<le>s GetWindowArea w"
      by blast
    show ?thesis
    proof (cases "GetWindowArea c \<le>s GetWindowArea w")
      case True
      with w show ?thesis by auto
    next
      case False
      with w have "\<forall>v \<in> set (c # cs). GetWindowArea v \<le>s GetWindowArea c"
        by (auto simp: word_sle_eq)
      then show ?thesis by auto
    qed
  qed
qed

lemma largest_first_Cons_skip:
  assumes "\<not> b <s GetWindowArea c"
  shows "largest_first b (c # cs) = largest_first b cs"
proof -
  have "\<And>w. b <s GetWindowArea w \<Longrightarrow> GetWindowArea c \<le>s GetWindowArea w"
    using assms by (auto simp: word_sle_eq word_sless_alt)
  then have "find (\<lambda>w. b <s GetWindowArea w \<and> (\<forall>v \<in> set (c # cs). GetWindowArea v \<le>s GetWindowArea w)) cs
      = find (\<lambda>w. b <s GetWindowArea w \<and> (\<forall>v \<in> set cs. GetWindowArea v \<le>s GetWindowArea w)) cs"
    by (intro find_cong) auto
  with assms show ?thesis by (simp add: largest_first_def)
qed

lemma largest_first_Cons_take:
  assumes "b <s GetWindowArea c"
  shows "largest_first b (c # cs) =
    (case largest_first (GetWindowArea c) cs of None \<Rightarrow> Some c | Some v \<Rightarrow> Some v)"
proof (cases "\<forall>v \<in> set cs. GetWindowArea v \<le>s GetWindowArea c")
  case True
  then have "largest_first (GetWindowArea c) cs = None"
    by (auto simp: largest_first_def find_None_iff word_sle_eq word_sless_alt)
  moreover have "largest_first b (c # cs) = Some c"
    using True assms by (simp add: largest_first_def)
  ultimately show ?thesis by simp
next
  case False
  have "find (\<lambda>w. b <s GetWindowArea w \<and> (\<forall>v \<in> set (c # cs). GetWindowArea v \<le>s GetWindowArea w)) cs
      = find (\<lambda>w. GetWindowArea c <s GetWindowArea w \<and> (\<forall>v \<in> set cs. GetWindowArea v \<le>s GetWindowArea w)) cs"
    using False assms by (intro find_cong) (auto simp: word_sle_eq word_sless_alt)
  then have eq: "largest_first b (c # cs) = largest_first (GetWindowArea c) cs"
    using False by (auto simp: largest_first_def)
  from False have "cs \<noteq> []" by auto
  from exists_max [OF this] obtain w where
    w: "w \<in> set cs" "\<forall>v \<in> set cs. GetWindowArea v \<le>s GetWindowArea w" by blast
  with False have "GetWindowArea c <s GetWindowArea w"
    by (auto simp: word_sle_eq word_sless_alt)
  with w have "largest_first (GetWindowArea c) cs \<noteq> None"
    by (auto simp: largest_first_def find_None_iff)
  with eq show ?thesis by (auto split: option.splits)
qed

lemma EnumWindows_step:
  "EnumWindows EnumProc (w # ws) ed =
     EnumWindows EnumProc ws
       (if qualifies (pid ed) w \<and> bestArea ed <s GetWindowArea w
        then ed\<lparr>bestHwnd := hwnd w, bestArea := GetWindowArea w\<rparr> else ed)"
  by (simp add: EnumProc_qualifies [of w ed])

lemma EnumWindows_EnumProc:
  "EnumWindows EnumProc ws ed =
     (case largest_first (bestArea ed) (filter (qualifies (pid ed)) ws) of
        None \<Rightarrow> ed
      | Some w \<Rightarrow> ed\<lparr>bestHwnd := hwnd w, bestArea := GetWindowArea w\<rparr>)"
proof (induction ws arbitrary: ed)
  case Nil
  show ?case by (simp add: largest_first_def)
next
  case (Cons w ws)
  show ?case
  proof (cases "qualifies (pid ed) w")
    case False
    then show ?thesis by (simp add: EnumWindows_step Cons.IH del: EnumWindows.simps)
  next
    case q: True
    show ?thesis
    proof (cases "bestArea ed <s GetWindowArea w")
      case True
      with q show ?thesis
        by (simp add: EnumWindows_step Cons.IH largest_first_Cons_take del: EnumWindows.simps split: option.splits)
    next
      case False
      with q show ?thesis
        by (simp add: EnumWindows_step Cons.IH largest_first_Cons_skip del: EnumWindows.simps)
    qed
  qed
qed


lemma largest_first_SomeD:
  "largest_first b cs = Some w \<Longrightarrow> w \<in> set cs \<and> b <s GetWindowArea w"
  unfolding largest_first_def find_Some_iff by auto

lemma FindWindowByPid_eq:
  "FindWindowByPid desktop (JSNumber n # rest) =
     (case largest_first 0 (filter (qualifies (Uint32Value n)) desktop) of
        None \<Rightarrow> Inr JSNull
      | Some w \<Rightarrow> if hwnd w \<noteq> 0 then Inr (BigInt_New (hwnd w)) else Inr JSNull)"
  by (simp add: FindWindowByPid_def EnumWindows_EnumProc Let_def split: option.splits)

text \<open>
  Claim C6, as stated, fails: a window that qualifies is not returned when its area is 0.
  With the zero-width window as the only window of the desktop, the window qualifies and
  the lookup for its process returns null.
\<close>

theorem FindWindowByPid_zero_area_counterexample:
  "filter (qualifies 7) [zero_width_window] = [zero_width_window] \<and>
   FindWindowByPid [zero_width_window] [JSNumber 7] = Inr JSNull"
  by (simp add: zero_width_window_def qualifies_def WS_EX_TOOLWINDOW_def FindWindowByPid_def
      EnumProc_def Uint32Value_def)

lemma sint_GetWindowArea:
  assumes "area_fits_int w"
  shows "sint (GetWindowArea w) = window_area w"
proof (cases "WindowRect w")
  case None
  then show ?thesis by (simp add: GetWindowArea_def window_area_def)
next
  case (Some rect)
  let ?dx = "sint (rc_right rect) - sint (rc_left rect)"
  let ?dy = "sint (rc_bottom rect) - sint (rc_top rect)"
  from assms Some have f: "fits_int ?dx" "fits_int ?dy" "fits_int (?dx * ?dy)"
    by (simp_all add: area_fits_int_def)
  have k: "fits_int k \<Longrightarrow> signed_take_bit 31 k = k" for k
    by (simp add: fits_int_def signed_take_bit_int_eq_self)
  have dx: "sint (rc_right rect - rc_left rect) = ?dx"
    using k [OF f(1)] by (simp add: sint_word_ariths)
  have dy: "sint (rc_bottom rect - rc_top rect) = ?dy"
    using k [OF f(2)] by (simp add: sint_word_ariths)
  have m: "sint (a * b) = signed_take_bit 31 (sint a * sint b)" for a b :: LONG
    by (simp add: sint_word_ariths)
  have "sint ((rc_right rect - rc_left rect) * (rc_bottom rect - rc_top rect)) = ?dx * ?dy"
    unfolding m dx dy by (rule k [OF f(3)])
  with Some show ?thesis by (simp add: GetWindowArea_def window_area_def)
qed

lemma largest_first_largest_window:
  assumes "\<forall>w \<in> set cs. area_fits_int w"
  shows "largest_first 0 cs = largest_window cs"
  unfolding largest_first_def largest_window_def
proof (rule find_cong [OF refl])
  fix w assume w: "w \<in> set cs"
  with assms have "sint (GetWindowArea w) = window_area w" by (simp add: sint_GetWindowArea)
  moreover from assms have "\<forall>v \<in> set cs. sint (GetWindowArea v) = window_area v"
    by (simp add: sint_GetWindowArea)
  ultimately show "(0 <s GetWindowArea w \<and> (\<forall>v \<in> set cs. GetWindowArea v \<le>s GetWindowArea w)) =
        (0 < window_area w \<and> (\<forall>v \<in> set cs. window_area v \<le> window_area w))"
    by (simp add: word_sless_alt word_sle_eq)
qed

text \<open>
  Claim C6, amended: for every pid, on a desktop whose windows have rectangles of which
  width, height and area fit in an \<^verbatim>\<open>int\<close>, \<^verbatim>\<open>findWindowByPid\<close> returns, among the
  enumerated windows that are visible, owned by the pid, not tool windows and have a
  non-empty title, the handle of the window with the largest area (width times height of
  the outer rectangle, 0 when the rectangle cannot be read), the first such window in
  enumeration order, provided that area is greater than 0; it returns null when no
  qualifying window has an area greater than 0. Enumerated handles are
  not \<^verbatim>\<open>NULL\<close>.
\<close>

theorem FindWindowByPid_largest:
  assumes "\<forall>w \<in> set desktop. hwnd w \<noteq> 0 \<and> area_fits_int w"
  shows "FindWindowByPid desktop (JSNumber n # rest) =
     Inr (case largest_window (filter (qualifies (Uint32Value n)) desktop) of
            None \<Rightarrow> JSNull
          | Some w \<Rightarrow> BigInt_New (hwnd w))"
proof -
  from assms have "\<forall>w \<in> set (filter (qualifies (Uint32Value n)) desktop). area_fits_int w"
    by simp
  then have eq: "largest_first 0 (filter (qualifies (Uint32Value n)) desktop)
               = largest_window (filter (qualifies (Uint32Value n)) desktop)"
    by (rule largest_first_largest_window)
  show ?thesis
  proof (cases "largest_first 0 (filter (qualifies (Uint32Value n)) desktop)")
    case None
    with eq show ?thesis by (simp add: FindWindowByPid_eq)
  next
    case (Some w)
    then have "w \<in> set desktop" by (auto dest: largest_first_SomeD)
    with assms have "hwnd w \<noteq> 0" by blast
    with Some eq show ?thesis by (simp add: FindWindowByPid_eq)
  qed
qed

theorem FindWindowByPid_largest_witness:
  "map hwnd two_windows = [1, 2, 3] \<and>
   map window_area two_windows = [100, 200, 200] \<and>
   FindWindowByPid two_windows [JSNumber 7] = Inr (JSBigInt 2)"
proof -
  have h: "\<forall>w \<in> set two_windows. hwnd w \<noteq> 0 \<and> area_fits_int w"
    by (simp add: two_windows_def area_fits_int_def fits_int_def)
  have a: "map window_area two_windows = [100, 200, 200]"
    by (simp add: two_windows_def window_area_def)
  have "largest_window (filter (qualifies (Uint32Value 7)) two_windows) = Some (two_windows ! 1)"
    by (simp add: two_windows_def largest_window_def qualifies_def WS_EX_TOOLWINDOW_def
        window_area_def Uint32Value_def)
  with FindWindowByPid_largest [OF h, of 7 "[]"] a
  show ?thesis
    by (simp add: two_windows_def BigInt_New_def)
qed

text \<open>
  Claim C10: a handle returned by \<^verbatim>\<open>findWindowByPid\<close> belongs to a qualifying window
  whose computed area is not 0 (it is greater than 0), and when every qualifying window
  has area 0, which includes a failed rectangle query, the result is null.
\<close>

theorem FindWindowByPid_never_zero_area:
  "(FindWindowByPid desktop (JSNumber n # rest) = Inr (JSBigInt h) \<longrightarrow>
      (\<exists>w \<in> set desktop. sint (hwnd w) = h \<and> qualifies (Uint32Value n) w \<and>
         GetWindowArea w \<noteq> 0 \<and> 0 <s GetWindowArea w)) \<and>
   ((\<forall>w \<in> set desktop. qualifies (Uint32Value n) w \<longrightarrow> GetWindowArea w = 0) \<longrightarrow>
      FindWindowByPid desktop (JSNumber n # rest) = Inr JSNull)"
proof (intro conjI impI)
  assume r: "FindWindowByPid desktop (JSNumber n # rest) = Inr (JSBigInt h)"
  then obtain w where w: "largest_first 0 (filter (qualifies (Uint32Value n)) desktop) = Some w"
    and h: "sint (hwnd w) = h"
    by (auto simp: FindWindowByPid_eq BigInt_New_def split: option.splits if_splits)
  from largest_first_SomeD [OF w]
  have "w \<in> set desktop" "qualifies (Uint32Value n) w" "0 <s GetWindowArea w" by auto
  moreover from this have "GetWindowArea w \<noteq> 0" by auto
  ultimately show "\<exists>w \<in> set desktop. sint (hwnd w) = h \<and> qualifies (Uint32Value n) w \<and>
         GetWindowArea w \<noteq> 0 \<and> 0 <s GetWindowArea w"
    using h by blast
next
  assume z: "\<forall>w \<in> set desktop. qualifies (Uint32Value n) w \<longrightarrow> GetWindowArea w = 0"
  have "largest_first 0 (filter (qualifies (Uint32Value n)) desktop) = None"
  proof (cases "largest_first 0 (filter (qualifies (Uint32Value n)) desktop)")
    case None then show ?thesis .
  next
    case (Some w)
    from largest_first_SomeD [OF Some] z show ?thesis by auto
  qed
  then show "FindWindowByPid desktop (JSNumber n # rest) = Inr JSNull"
    by (simp add: FindWindowByPid_eq)
qed

theorem FindWindowByPid_never_zero_area_witness:
  "FindWindowByPid two_windows [JSNumber 7] = Inr (JSBigInt 2) \<and>
   (\<exists>w \<in> set two_windows. sint (hwnd w) = 2 \<and> qualifies (Uint32Value 7) w \<and>
      GetWindowArea w \<noteq> 0 \<and> 0 <s GetWindowArea w) \<and>
   map GetWindowArea (filter (qualifies 7) [rectless_window, zero_width_window]) = [0, 0] \<and>
   FindWindowByPid [rectless_window, zero_width_window] [JSNumber 7] = Inr JSNull"
proof -
  have r: "FindWindowByPid two_windows [JSNumber 7] = Inr (JSBigInt 2)"
    by (simp add: two_windows_def FindWindowByPid_def EnumProc_def WS_EX_TOOLWINDOW_def
        Uint32Value_def BigInt_New_def word_sless_alt)
  have z: "\<forall>w \<in> set [rectless_window, zero_width_window].
      qualifies (Uint32Value 7) w \<longrightarrow> GetWindowArea w = 0"
    by (simp add: rectless_window_def zero_width_window_def GetWindowArea_def)
  have m: "map GetWindowArea (filter (qualifies 7) [rectless_window, zero_width_window]) = [0, 0]"
    by (simp add: rectless_window_def zero_width_window_def GetWindowArea_def qualifies_def
        WS_EX_TOOLWINDOW_def)
  from FindWindowByPid_never_zero_area [of two_windows 7 "[]" 2] r
    FindWindowByPid_never_zero_area [of "[rectless_window, zero_width_window]" 7 "[]" 0] z
  have "(\<exists>w \<in> set two_windows. sint (hwnd w) = 2 \<and> qualifies (Uint32Value 7) w \<and>
      GetWindowArea w \<noteq> 0 \<and> 0 <s GetWindowArea w) \<and>
    FindWindowByPid [rectless_window, zero_width_window] [JSNumber 7] = Inr JSNull"
    by blast
  with r m show ?thesis by blast
qed


section \<open>The subscription: teardown, invariant and dispatch\<close>

lemma StopWinEventHook_released:
  "StopWinEventHook info w = (Inr JSUndefined, released w)"
proof (cases "g_hookState w")
  case None
  then show ?thesis by (simp add: StopWinEventHook_def released_def)
next
  case (Some st)
  then show ?thesis
    apply (simp add: StopWinEventHook_def released_def Let_def hook_tokens_def UnhookWinEvent_def split_def)
    apply (auto intro!: world.equality)
    done
qed


lemma start_teardown:
  "(case g_hookState w of
      None \<Rightarrow> w
    | Some old \<Rightarrow>
        let u1 = (if hookHandle1 old \<noteq> 0 then UnhookWinEvent (hookHandle1 old) w else w);
            u2 = (if hookHandle2 old \<noteq> 0 then UnhookWinEvent (hookHandle2 old) u1 else u1);
            u3 = (if hookHandle3 old \<noteq> 0 then UnhookWinEvent (hookHandle3 old) u2 else u2);
            u4 = (if hookHandle4 old \<noteq> 0 then UnhookWinEvent (hookHandle4 old) u3 else u3)
        in u4\<lparr>g_hookState := None\<rparr>) = released w"
proof (cases "g_hookState w")
  case None
  then show ?thesis by (simp add: released_def)
next
  case (Some st)
  then show ?thesis
    apply (simp add: released_def Let_def hook_tokens_def UnhookWinEvent_def)
    apply (auto intro!: world.equality)
    done
qed

lemma StartWinEventHook_valid:
  "StartWinEventHook os (JSNumber n # JSFunction cb # rest) w =
     (if reply1 os = 0 \<and> reply2 os = 0 \<and> reply3 os = 0 \<and> reply4 os = 0
      then (Inl (JsError ''Failed to set WinEvent hooks. Error code: '' (lastError os)),
            released w)
      else (Inr JSUndefined,
            (released w)\<lparr>g_hookState := Some (installed os n cb),
                          live_hooks := live_hooks (released w) \<union> reply_tokens os\<rparr>))"
  unfolding StartWinEventHook_def list.case jsval.case start_teardown
  apply (simp add: Let_def SetWinEventHook_def split_def installed_def reply_tokens_def)
  apply (auto intro!: world.equality simp: released_def split: option.splits)
  done

lemma StartWinEventHook_invalid:
  "(\<nexists>n cb rest. info = JSNumber n # JSFunction cb # rest) \<Longrightarrow>
   StartWinEventHook os info w = (Inl (JsTypeError ''Expected (number pid, function callback)''), w)"
  by (auto simp: StartWinEventHook_def split: list.splits jsval.splits)

lemma released_Stopped:
  "Stopped w \<or> Live w \<Longrightarrow> Stopped (released w)"
  by (auto simp: Stopped_def Live_def released_def split: option.splits)

lemma reply_tokens_empty:
  "reply_tokens os = {} \<longleftrightarrow> reply1 os = 0 \<and> reply2 os = 0 \<and> reply3 os = 0 \<and> reply4 os = 0"
  by (auto simp: reply_tokens_def)

lemma hook_tokens_installed: "hook_tokens (installed os n cb) = reply_tokens os"
  by (simp add: hook_tokens_def reply_tokens_def installed_def)

lemma installed_fields:
  "jsCallback (installed os n cb) = Some cb" "targetPid (installed os n cb) = Uint32Value n"
  by (simp_all add: installed_def)

lemma StartWinEventHook_inv:
  assumes "Stopped w \<or> Live w"
  shows "Stopped (snd (StartWinEventHook os info w)) \<or> Live (snd (StartWinEventHook os info w))"
proof (cases "\<exists>n cb rest. info = JSNumber n # JSFunction cb # rest")
  case True
  then obtain n cb rest where info: "info = JSNumber n # JSFunction cb # rest" by blast
  from released_Stopped [OF assms] have r: "Stopped (released w)" .
  show ?thesis
  proof (cases "reply_tokens os = {}")
    case True
    with r show ?thesis by (simp add: info StartWinEventHook_valid reply_tokens_empty)
  next
    case False
    with r have "Live (snd (StartWinEventHook os info w))"
      by (simp add: info StartWinEventHook_valid reply_tokens_empty Live_def Stopped_def
          hook_tokens_installed installed_fields)
    then show ?thesis ..
  qed
next
  case False
  with assms show ?thesis by (simp add: StartWinEventHook_invalid)
qed

lemma apply_op_inv:
  "Stopped w \<or> Live w \<Longrightarrow> Stopped (snd (apply_op c w)) \<or> Live (snd (apply_op c w))"
  by (cases c) (simp_all add: StartWinEventHook_inv StopWinEventHook_released released_Stopped)

lemma run_inv:
  "Stopped w \<or> Live w \<Longrightarrow> Stopped (run cs w) \<or> Live (run cs w)"
  by (induction cs arbitrary: w) (simp_all add: apply_op_inv)

lemma initial_Stopped: "Stopped initial_world"
  by (simp add: Stopped_def initial_world_def)


text \<open>
  Claim C2: after any sequence of start and stop calls from the initial state, the
  subscription is either stopped (no \<^verbatim>\<open>HookState\<close>, no live token) or live (a handler
  is set and the live tokens are the non-null handles of the \<^verbatim>\<open>HookState\<close>, at least
  one); there are live tokens exactly when there is a handler.
\<close>

theorem subscription_invariant:
  "(Stopped (run cs initial_world) \<or> Live (run cs initial_world)) \<and>
   ((live_hooks (run cs initial_world) \<noteq> {}) = (current_handler (run cs initial_world) \<noteq> None))"
proof -
  have "Stopped (run cs initial_world) \<or> Live (run cs initial_world)"
    by (rule run_inv) (simp add: initial_Stopped)
  then show ?thesis
    by (auto simp: Stopped_def Live_def current_handler_def split: option.splits)
qed

lemma run_one_hook:
  "run [Start no_hook [JSNumber 7, JSFunction 11], Start one_hook [JSNumber 7, JSFunction 22]]
       initial_world
   = \<lparr>g_hookState = Some (installed one_hook 7 22), live_hooks = {0x51}\<rparr>"
  by (simp add: StartWinEventHook_valid released_def initial_world_def no_hook_def one_hook_def
      reply_tokens_def installed_def)

theorem subscription_invariant_witness:
  "Live (run [Start no_hook [JSNumber 7, JSFunction 11], Start one_hook [JSNumber 7, JSFunction 22]]
          initial_world) \<and>
   live_hooks (run [Start no_hook [JSNumber 7, JSFunction 11], Start one_hook [JSNumber 7, JSFunction 22]]
          initial_world) = {0x51}"
  using subscription_invariant
    [of "[Start no_hook [JSNumber 7, JSFunction 11], Start one_hook [JSNumber 7, JSFunction 22]]"]
  unfolding run_one_hook by (simp add: Stopped_def)

text \<open>
  Claim C8: \<^verbatim>\<open>stopWinEventHook\<close> never throws and leaves no \<^verbatim>\<open>HookState\<close>; a
  second stop changes nothing and does not throw either; a stop before any start is a
  no-op; and after a stop in any reachable state no hook token is live.
\<close>

theorem StopWinEventHook_idempotent:
  "fst (StopWinEventHook info w) = Inr JSUndefined \<and>
   g_hookState (snd (StopWinEventHook info w)) = None \<and>
   StopWinEventHook info' (snd (StopWinEventHook info w)) =
     (Inr JSUndefined, snd (StopWinEventHook info w)) \<and>
   StopWinEventHook info initial_world = (Inr JSUndefined, initial_world) \<and>
   Stopped (snd (StopWinEventHook info (run cs initial_world)))"
proof -
  have "Stopped (run cs initial_world) \<or> Live (run cs initial_world)"
    by (rule run_inv) (simp add: initial_Stopped)
  then have "Stopped (released (run cs initial_world))" by (rule released_Stopped)
  moreover have "released (released w) = released w" "g_hookState (released w) = None"
    by (simp_all add: released_def split: option.splits)
  moreover have "released initial_world = initial_world"
    by (simp add: released_def initial_world_def)
  ultimately show ?thesis by (simp add: StopWinEventHook_released)
qed

theorem StopWinEventHook_idempotent_witness:
  "snd (StopWinEventHook [] (run [Start three_hooks [JSNumber 7, JSFunction 11]] initial_world))
     = initial_world \<and>
   StopWinEventHook [] initial_world = (Inr JSUndefined, initial_world)"
proof -
  have eq: "run [Start three_hooks [JSNumber 7, JSFunction 11]] initial_world
        = \<lparr>g_hookState = Some (installed three_hooks 7 11), live_hooks = {0x61, 0x62, 0x63}\<rparr>"
    by (simp add: StartWinEventHook_valid released_def initial_world_def three_hooks_def
        reply_tokens_def installed_def)
  show ?thesis
    using StopWinEventHook_idempotent
      [of "[]" "run [Start three_hooks [JSNumber 7, JSFunction 11]] initial_world" "[]"
          "[Start three_hooks [JSNumber 7, JSFunction 11]]"]
    unfolding eq
    by (auto simp: Stopped_def initial_world_def intro!: world.equality)
qed

text \<open>
  Claim C3: called with a pid and a handler in any reachable state,
  \<^verbatim>\<open>startWinEventHook\<close> throws exactly when all four registrations fail; the error
  then carries the code of \<^verbatim>\<open>GetLastError\<close> and the subscription is stopped;
  otherwise the call returns normally and the subscription is live.
\<close>

theorem StartWinEventHook_all_or_nothing:
  "(reply1 os = 0 \<and> reply2 os = 0 \<and> reply3 os = 0 \<and> reply4 os = 0 \<longrightarrow>
      fst (StartWinEventHook os (JSNumber n # JSFunction cb # rest) (run cs initial_world))
        = Inl (JsError ''Failed to set WinEvent hooks. Error code: '' (lastError os)) \<and>
      Stopped (snd (StartWinEventHook os (JSNumber n # JSFunction cb # rest) (run cs initial_world)))) \<and>
   (\<not> (reply1 os = 0 \<and> reply2 os = 0 \<and> reply3 os = 0 \<and> reply4 os = 0) \<longrightarrow>
      fst (StartWinEventHook os (JSNumber n # JSFunction cb # rest) (run cs initial_world))
        = Inr JSUndefined \<and>
      Live (snd (StartWinEventHook os (JSNumber n # JSFunction cb # rest) (run cs initial_world)))) \<and>
   (isl (fst (StartWinEventHook os (JSNumber n # JSFunction cb # rest) (run cs initial_world)))
      = (reply1 os = 0 \<and> reply2 os = 0 \<and> reply3 os = 0 \<and> reply4 os = 0))"
proof -
  have "Stopped (run cs initial_world) \<or> Live (run cs initial_world)"
    by (rule run_inv) (simp add: initial_Stopped)
  then have r: "Stopped (released (run cs initial_world))" by (rule released_Stopped)
  show ?thesis
  proof (cases "reply1 os = 0 \<and> reply2 os = 0 \<and> reply3 os = 0 \<and> reply4 os = 0")
    case True
    with r show ?thesis by (simp add: StartWinEventHook_valid)
  next
    case False
    then have "reply_tokens os \<noteq> {}" by (simp add: reply_tokens_empty)
    with r False show ?thesis
      by (simp add: StartWinEventHook_valid Live_def Stopped_def hook_tokens_installed
          installed_fields)
  qed
qed

theorem StartWinEventHook_all_or_nothing_witness:
  "StartWinEventHook no_hook [JSNumber 7, JSFunction 22]
     (run [Start three_hooks [JSNumber 7, JSFunction 11]] initial_world)
     = (Inl (JsError ''Failed to set WinEvent hooks. Error code: '' 5), initial_world) \<and>
   fst (StartWinEventHook one_hook [JSNumber 7, JSFunction 22]
     (run [Start three_hooks [JSNumber 7, JSFunction 11]] initial_world)) = Inr JSUndefined \<and>
   Live (snd (StartWinEventHook one_hook [JSNumber 7, JSFunction 22]
     (run [Start three_hooks [JSNumber 7, JSFunction 11]] initial_world)))"
proof -
  have a: "reply1 no_hook = 0 \<and> reply2 no_hook = 0 \<and> reply3 no_hook = 0 \<and> reply4 no_hook = 0"
    by (simp add: no_hook_def)
  have b: "\<not> (reply1 one_hook = 0 \<and> reply2 one_hook = 0 \<and> reply3 one_hook = 0 \<and> reply4 one_hook = 0)"
    by (simp add: one_hook_def)
  have c: "lastError no_hook = 5" by (simp add: no_hook_def)
  from a b c
    StartWinEventHook_all_or_nothing [of no_hook 7 22 "[]" "[Start three_hooks [JSNumber 7, JSFunction 11]]"]
    StartWinEventHook_all_or_nothing [of one_hook 7 22 "[]" "[Start three_hooks [JSNumber 7, JSFunction 11]]"]
  show ?thesis
    by (auto simp: Stopped_def initial_world_def prod_eq_iff intro!: world.equality)
qed


lemma WinEventProc_handler:
  "WinEventProc pid_of stale w e = Some (cb, obj) \<Longrightarrow> current_handler w = Some cb"
  by (auto simp: WinEventProc_def current_handler_def Let_def split: option.splits if_splits)

lemma deliver_handler:
  "(cb, obj) \<in> set (deliver pid_of w es) \<Longrightarrow> current_handler w = Some cb"
  by (auto simp: deliver_def List.map_filter_def dest: WinEventProc_handler)

lemma current_handler_released: "current_handler (released w) = None"
  by (simp add: current_handler_def released_def split: option.splits)

lemma current_handler_Some:
  "current_handler (w\<lparr>g_hookState := Some st, live_hooks := X\<rparr>) = jsCallback st"
  by (simp add: current_handler_def)

lemma current_handler_start:
  "current_handler (snd (StartWinEventHook os (JSNumber n # JSFunction cb # rest) w))
     = (if reply_tokens os = {} then None else Some cb)"
  by (simp add: StartWinEventHook_valid current_handler_released current_handler_Some
      installed_fields reply_tokens_empty)

lemma current_handler_apply_op:
  assumes "current_handler (snd (apply_op c w)) = Some h"
  shows "h \<in> set (op_handlers c) \<or> current_handler w = Some h"
proof (cases c)
  case (Stop info)
  with assms show ?thesis
    by (simp add: StopWinEventHook_released current_handler_released)
next
  case (Start os info)
  show ?thesis
  proof (cases "\<exists>n cb rest. info = JSNumber n # JSFunction cb # rest")
    case True
    then obtain n cb rest where info: "info = JSNumber n # JSFunction cb # rest" by blast
    from assms have "h = cb"
      by (simp add: Start info current_handler_start split: if_splits)
    then show ?thesis by (simp add: Start info)
  next
    case False
    with assms show ?thesis by (simp add: Start StartWinEventHook_invalid)
  qed
qed

lemma current_handler_run:
  "current_handler (run cs w) = Some h \<Longrightarrow>
   h \<in> set (concat (map op_handlers cs)) \<or> current_handler w = Some h"
proof (induction cs arbitrary: w)
  case Nil
  then show ?case by simp
next
  case (Cons c cs)
  from Cons.prems have "current_handler (run cs (snd (apply_op c w))) = Some h" by simp
  from Cons.IH [OF this] show ?case
    by (auto dest: current_handler_apply_op)
qed

lemma live_hooks_start_start:
  assumes "Stopped w \<or> Live w"
  shows "live_hooks (snd (StartWinEventHook os2 (JSNumber p2 # JSFunction h2 # r2)
           (snd (StartWinEventHook os1 (JSNumber p1 # JSFunction h1 # r1) w)))) = reply_tokens os2"
proof -
  let ?w1 = "snd (StartWinEventHook os1 (JSNumber p1 # JSFunction h1 # r1) w)"
  from StartWinEventHook_inv [OF assms] have "Stopped ?w1 \<or> Live ?w1" .
  then have "Stopped (released ?w1)" by (rule released_Stopped)
  then show ?thesis
    by (auto simp: StartWinEventHook_valid [of os2] Stopped_def reply_tokens_empty [symmetric])
qed

text \<open>
  Claim C1: after \<^verbatim>\<open>start(p1, h1); start(p2, h2)\<close> with two distinct handlers, the
  live tokens are those of the second start only (every token of the first one has been
  released), the handler in place is \<open>h2\<close> or none, and whatever notifications arrive,
  also after later calls that do not hand \<open>h1\<close> over again, \<open>h1\<close> is not invoked.
\<close>

theorem replaced_handler_never_invoked:
  assumes "h1 \<noteq> h2" and "h1 \<notin> set (concat (map op_handlers later))"
  shows "live_hooks (run [Start os1 (JSNumber p1 # JSFunction h1 # r1),
                          Start os2 (JSNumber p2 # JSFunction h2 # r2)] (run cs initial_world))
           = reply_tokens os2 \<and>
         current_handler (run [Start os1 (JSNumber p1 # JSFunction h1 # r1),
                               Start os2 (JSNumber p2 # JSFunction h2 # r2)] w)
           = (if reply_tokens os2 = {} then None else Some h2) \<and>
         h1 \<notin> fst ` set (deliver pid_of
                 (run (Start os1 (JSNumber p1 # JSFunction h1 # r1) #
                       Start os2 (JSNumber p2 # JSFunction h2 # r2) # later) w) es)"
proof (intro conjI)
  have "Stopped (run cs initial_world) \<or> Live (run cs initial_world)"
    by (rule run_inv) (simp add: initial_Stopped)
  from live_hooks_start_start [OF this]
  show "live_hooks (run [Start os1 (JSNumber p1 # JSFunction h1 # r1),
                          Start os2 (JSNumber p2 # JSFunction h2 # r2)] (run cs initial_world))
           = reply_tokens os2"
    by simp
next
  show c: "current_handler (run [Start os1 (JSNumber p1 # JSFunction h1 # r1),
                               Start os2 (JSNumber p2 # JSFunction h2 # r2)] w)
           = (if reply_tokens os2 = {} then None else Some h2)"
    by (simp add: current_handler_start)
  show "h1 \<notin> fst ` set (deliver pid_of
                 (run (Start os1 (JSNumber p1 # JSFunction h1 # r1) #
                       Start os2 (JSNumber p2 # JSFunction h2 # r2) # later) w) es)"
  proof
    assume "h1 \<in> fst ` set (deliver pid_of
                 (run (Start os1 (JSNumber p1 # JSFunction h1 # r1) #
                       Start os2 (JSNumber p2 # JSFunction h2 # r2) # later) w) es)"
    then obtain obj where "(h1, obj) \<in> set (deliver pid_of
                 (run (Start os1 (JSNumber p1 # JSFunction h1 # r1) #
                       Start os2 (JSNumber p2 # JSFunction h2 # r2) # later) w) es)"
      by auto
    then have "current_handler (run later
                 (run [Start os1 (JSNumber p1 # JSFunction h1 # r1),
                       Start os2 (JSNumber p2 # JSFunction h2 # r2)] w)) = Some h1"
      by (simp add: deliver_handler)
    from current_handler_run [OF this] assms(2)
    have "current_handler (run [Start os1 (JSNumber p1 # JSFunction h1 # r1),
                       Start os2 (JSNumber p2 # JSFunction h2 # r2)] w) = Some h1"
      by blast
    with c assms(1) show False by (simp split: if_splits)
  qed
qed


lemma run_three_one:
  "run [Start three_hooks [JSNumber 7, JSFunction 11], Start one_hook [JSNumber 7, JSFunction 22]]
       initial_world
   = \<lparr>g_hookState = Some (installed one_hook 7 22), live_hooks = {0x51}\<rparr>"
  by (simp add: StartWinEventHook_valid released_def initial_world_def three_hooks_def one_hook_def
      reply_tokens_def installed_def hook_tokens_def)

theorem replaced_handler_never_invoked_witness:
  "map fst (deliver owner_of
      (run [Start three_hooks [JSNumber 7, JSFunction 11],
            Start one_hook [JSNumber 7, JSFunction 22]] initial_world)
      [(0, notification EVENT_SYSTEM_FOREGROUND 0x200), (0, notification EVENT_SYSTEM_MOVESIZESTART 0x100)]) = [22, 22] \<and>
   11 \<notin> fst ` set (deliver owner_of
      (run [Start three_hooks [JSNumber 7, JSFunction 11],
            Start one_hook [JSNumber 7, JSFunction 22]] initial_world)
      [(0, notification EVENT_SYSTEM_FOREGROUND 0x200), (0, notification EVENT_SYSTEM_MOVESIZESTART 0x100)]) \<and>
   live_hooks (run [Start three_hooks [JSNumber 7, JSFunction 11],
                    Start one_hook [JSNumber 7, JSFunction 22]] (run [] initial_world)) = {0x51}"
proof -
  have a: "(11::nat) \<noteq> 22" by simp
  have b: "(11::nat) \<notin> set (concat (map op_handlers []))" by simp
  have c: "reply_tokens one_hook = {0x51}" by (simp add: reply_tokens_def one_hook_def)
  have d: "map fst (deliver owner_of
      (run [Start three_hooks [JSNumber 7, JSFunction 11],
            Start one_hook [JSNumber 7, JSFunction 22]] initial_world)
      [(0, notification EVENT_SYSTEM_FOREGROUND 0x200), (0, notification EVENT_SYSTEM_MOVESIZESTART 0x100)]) = [22, 22]"
    unfolding run_three_one
    by (simp add: deliver_def List.map_filter_def WinEventProc_def notification_def owner_of_def installed_def
        OBJID_WINDOW_def CHILDID_SELF_def EVENT_SYSTEM_FOREGROUND_def
        EVENT_SYSTEM_MOVESIZESTART_def eventType_def EVENT_OBJECT_LOCATIONCHANGE_def
        Uint32Value_def)
  from replaced_handler_never_invoked [OF a b,
      of three_hooks 7 "[]" one_hook 7 "[]" "[]" initial_world owner_of
         "[(0, notification EVENT_SYSTEM_FOREGROUND 0x200), (0, notification EVENT_SYSTEM_MOVESIZESTART 0x100)]"] c d
  show ?thesis by simp
qed

text \<open>
  Dispatch when the owner of the window can be looked up: after a successful start with
  pid \<open>n\<close> and handler \<open>cb\<close>, a foreground change of a window object is
  delivered to \<open>cb\<close> with the handle and the pid of the owner, whichever process that
  is, and any other event is delivered exactly when the owner is the target pid and the code
  is one of the six mapped codes.
\<close>

lemma dispatch_owner_known:
  assumes "StartWinEventHook os (JSNumber n # JSFunction cb # rest) w = (Inr JSUndefined, w')"
    and "idObject e = OBJID_WINDOW" and "idChild e = CHILDID_SELF"
    and "pid_of (ev_hwnd e) = Some p"
  shows "(event e = EVENT_SYSTEM_FOREGROUND \<longrightarrow>
            WinEventProc pid_of stale w' e =
              Some (cb, JSObject [(''type'', JSString ''foreground''),
                                  (''hwnd'', BigInt_New (ev_hwnd e)),
                                  (''pid'', JSNumber (real (unat p)))])) \<and>
         (event e \<noteq> EVENT_SYSTEM_FOREGROUND \<longrightarrow>
            (WinEventProc pid_of stale w' e \<noteq> None) =
              (p = Uint32Value n \<and> eventType (event e) \<noteq> None))"
proof -
  from assms(1) have "g_hookState w' = Some (installed os n cb)"
    by (auto simp: StartWinEventHook_valid split: if_splits)
  with assms(2,3,4) show ?thesis
    by (auto simp: WinEventProc_def installed_fields Let_def split: option.splits)
qed

lemma start_one_hook:
  "StartWinEventHook one_hook [JSNumber 7, JSFunction 22] initial_world =
     (Inr JSUndefined, \<lparr>g_hookState = Some (installed one_hook 7 22), live_hooks = {0x51}\<rparr>)"
  by (simp add: StartWinEventHook_valid released_def initial_world_def one_hook_def
      reply_tokens_def installed_def)

text \<open>
  Claim C4 does not hold of the code when the window of a notification is already
  destroyed, as it usually is when a destroy event arrives out of context: the lookup of
  the owner fails, \<^verbatim>\<open>windowPid\<close> keeps the value it happened to hold, and that value,
  not an owner, decides. After \<^verbatim>\<open>start(7, cb)\<close>, a destroy event for the destroyed window
  \<open>0x300\<close> is delivered when the leftover value is 7 and dropped when it is 0, and a
  foreground event for that window reports the leftover value 32766 as the pid.
\<close>

theorem dispatch_destroyed_window:
  "StartWinEventHook one_hook [JSNumber 7, JSFunction 22] initial_world =
     (Inr JSUndefined, \<lparr>g_hookState = Some (installed one_hook 7 22), live_hooks = {0x51}\<rparr>) \<and>
   owner_of 0x300 = None \<and>
   WinEventProc owner_of 7 \<lparr>g_hookState = Some (installed one_hook 7 22), live_hooks = {0x51}\<rparr>
     (notification EVENT_OBJECT_DESTROY 0x300) =
     Some (22, JSObject [(''type'', JSString ''destroy''), (''hwnd'', JSBigInt 0x300)]) \<and>
   WinEventProc owner_of 0 \<lparr>g_hookState = Some (installed one_hook 7 22), live_hooks = {0x51}\<rparr>
     (notification EVENT_OBJECT_DESTROY 0x300) = None \<and>
   WinEventProc owner_of 32766 \<lparr>g_hookState = Some (installed one_hook 7 22), live_hooks = {0x51}\<rparr>
     (notification EVENT_SYSTEM_FOREGROUND 0x300) =
     Some (22, JSObject [(''type'', JSString ''foreground''), (''hwnd'', JSBigInt 0x300),
                         (''pid'', JSNumber 32766)])"
  by (simp add: start_one_hook WinEventProc_def notification_def owner_of_def installed_def
      OBJID_WINDOW_def CHILDID_SELF_def EVENT_SYSTEM_FOREGROUND_def EVENT_OBJECT_DESTROY_def
      eventType_def EVENT_OBJECT_LOCATIONCHANGE_def EVENT_SYSTEM_MOVESIZESTART_def
      EVENT_SYSTEM_MOVESIZEEND_def EVENT_SYSTEM_MINIMIZESTART_def EVENT_SYSTEM_MINIMIZEEND_def
      Uint32Value_def BigInt_New_def)

theorem dispatch_destroyed_window_witness:
  "WinEventProc owner_of 7 \<lparr>g_hookState = Some (installed one_hook 7 22), live_hooks = {0x51}\<rparr>
     (notification EVENT_OBJECT_DESTROY 0x300) \<noteq>
   WinEventProc owner_of 0 \<lparr>g_hookState = Some (installed one_hook 7 22), live_hooks = {0x51}\<rparr>
     (notification EVENT_OBJECT_DESTROY 0x300)"
  using dispatch_destroyed_window by simp

text \<open>
  Claim C5: whatever \<^verbatim>\<open>WinEventProc\<close> passes to the handler is an object whose
  \<^verbatim>\<open>type\<close> is one of the seven kinds, and a notification whose code is none of the
  seven event codes is dropped without a call.
\<close>

theorem delivered_type_is_known:
  "(WinEventProc pid_of stale w e = Some (cb, obj) \<longrightarrow>
      (\<exists>t props. obj = JSObject props \<and> map_of props ''type'' = Some (JSString t) \<and>
                 t \<in> set event_kinds)) \<and>
   (event e \<notin> {EVENT_SYSTEM_FOREGROUND, EVENT_OBJECT_LOCATIONCHANGE, EVENT_SYSTEM_MOVESIZESTART,
               EVENT_SYSTEM_MOVESIZEEND, EVENT_SYSTEM_MINIMIZESTART, EVENT_SYSTEM_MINIMIZEEND,
               EVENT_OBJECT_DESTROY} \<longrightarrow>
      WinEventProc pid_of stale w e = None)"
proof (intro conjI impI)
  assume d: "WinEventProc pid_of stale w e = Some (cb, obj)"
  have k: "eventType c = Some t \<Longrightarrow> t \<in> set event_kinds" for c t
    by (auto simp: eventType_def event_kinds_def split: if_splits)
  from d show "\<exists>t props. obj = JSObject props \<and> map_of props ''type'' = Some (JSString t) \<and>
                 t \<in> set event_kinds"
    by (auto simp: WinEventProc_def Let_def event_kinds_def dest!: k
        split: option.splits if_splits)
next
  assume "event e \<notin> {EVENT_SYSTEM_FOREGROUND, EVENT_OBJECT_LOCATIONCHANGE, EVENT_SYSTEM_MOVESIZESTART,
               EVENT_SYSTEM_MOVESIZEEND, EVENT_SYSTEM_MINIMIZESTART, EVENT_SYSTEM_MINIMIZEEND,
               EVENT_OBJECT_DESTROY}"
  then have "event e \<noteq> EVENT_SYSTEM_FOREGROUND" "eventType (event e) = None"
    by (simp_all add: eventType_def)
  then show "WinEventProc pid_of stale w e = None"
    by (simp add: WinEventProc_def Let_def split: option.splits)
qed

theorem delivered_type_is_known_witness:
  "WinEventProc owner_of 0 \<lparr>g_hookState = Some (installed one_hook 7 22), live_hooks = {0x51}\<rparr>
     (notification EVENT_OBJECT_DESTROY 0x100) =
     Some (22, JSObject [(''type'', JSString ''destroy''), (''hwnd'', JSBigInt 0x100)]) \<and>
   ''destroy'' \<in> set event_kinds \<and>
   WinEventProc owner_of 0 \<lparr>g_hookState = Some (installed one_hook 7 22), live_hooks = {0x51}\<rparr>
     (notification 0x8005 0x100) = None"
proof -
  have d: "WinEventProc owner_of 0 \<lparr>g_hookState = Some (installed one_hook 7 22), live_hooks = {0x51}\<rparr>
     (notification EVENT_OBJECT_DESTROY 0x100) =
     Some (22, JSObject [(''type'', JSString ''destroy''), (''hwnd'', JSBigInt 0x100)])"
    by (simp add: WinEventProc_def notification_def owner_of_def installed_def OBJID_WINDOW_def
        CHILDID_SELF_def EVENT_SYSTEM_FOREGROUND_def EVENT_OBJECT_DESTROY_def eventType_def
        EVENT_OBJECT_LOCATIONCHANGE_def EVENT_SYSTEM_MOVESIZESTART_def
        EVENT_SYSTEM_MOVESIZEEND_def EVENT_SYSTEM_MINIMIZESTART_def EVENT_SYSTEM_MINIMIZEEND_def
        Uint32Value_def BigInt_New_def)
  have u: "event (notification 0x8005 0x100) \<notin> {EVENT_SYSTEM_FOREGROUND, EVENT_OBJECT_LOCATIONCHANGE,
             EVENT_SYSTEM_MOVESIZESTART, EVENT_SYSTEM_MOVESIZEEND, EVENT_SYSTEM_MINIMIZESTART,
             EVENT_SYSTEM_MINIMIZEEND, EVENT_OBJECT_DESTROY}"
    by (simp add: notification_def EVENT_SYSTEM_FOREGROUND_def EVENT_OBJECT_DESTROY_def
        EVENT_OBJECT_LOCATIONCHANGE_def EVENT_SYSTEM_MOVESIZESTART_def
        EVENT_SYSTEM_MOVESIZEEND_def EVENT_SYSTEM_MINIMIZESTART_def EVENT_SYSTEM_MINIMIZEEND_def)
  from delivered_type_is_known
    [of owner_of 0 "\<lparr>g_hookState = Some (installed one_hook 7 22), live_hooks = {0x51}\<rparr>"
        "notification EVENT_OBJECT_DESTROY 0x100" 22
        "JSObject [(''type'', JSString ''destroy''), (''hwnd'', JSBigInt 0x100)]"] d
    delivered_type_is_known
    [of owner_of 0 "\<lparr>g_hookState = Some (installed one_hook 7 22), live_hooks = {0x51}\<rparr>"
        "notification 0x8005 0x100"] u
  show ?thesis by auto
qed


section \<open>DPI scale and activation\<close>

text \<open>
  Claim C7, as stated, fails in its last part: the code has no default for a system-wide
  query that is unavailable. On a system without \<^verbatim>\<open>GetDpiForWindow\<close> on which
  \<^verbatim>\<open>GetDC\<close> yields no device context, neither facility is available and the result is
  0 / 96 = 0, not 1.
\<close>

theorem GetDpiScaleForHwnd_no_default_counterexample:
  "\<not> per_window_dpi_available failing_desktop \<and>
   \<not> system_dpi_available failing_desktop (Int64Value 0x100) \<and>
   GetDpiScaleForHwnd exact_quotient failing_desktop [JSBigInt 0x100] = Inr (JSNumber 0)"
  by (simp add: per_window_dpi_available_def system_dpi_available_def failing_desktop_def
      GetDpiScaleForHwnd_def Int64Value_def exact_quotient_def)

text \<open>
  Claim C7, amended: \<^verbatim>\<open>getDpiScaleForHwnd\<close> attempts the per-window DPI query first and
  returns the quotient of doubles dpi / 96.0 when that facility is available; when
  \<^verbatim>\<open>user32.dll\<close> is loaded and the per-window facility is unavailable, it falls back to
  the system-wide query and returns the quotient of that query's answer and 96.0,
  whatever the answer is; it returns exactly 1.0 when the \<^verbatim>\<open>user32.dll\<close> module cannot
  be obtained.
\<close>

theorem GetDpiScaleForHwnd_fallback:
  "(per_window_dpi_available os \<longrightarrow>
      (\<exists>proc. GetDpiForWindow os = Some proc \<and>
         GetDpiScaleForHwnd fdiv os (JSBigInt b # rest) =
           Inr (JSNumber (fdiv (real (unat (proc (Int64Value b)))) 96)))) \<and>
   (user32 os \<and> \<not> per_window_dpi_available os \<longrightarrow>
      GetDpiScaleForHwnd fdiv os (JSBigInt b # rest) =
        Inr (JSNumber (fdiv (real_of_int (sint (GetDeviceCaps_LOGPIXELSX os
                                                  (GetDC os (Int64Value b))))) 96))) \<and>
   (\<not> user32 os \<longrightarrow>
      GetDpiScaleForHwnd fdiv os (JSBigInt b # rest) = Inr (JSNumber 1))"
  by (auto simp: GetDpiScaleForHwnd_def per_window_dpi_available_def Let_def)

theorem GetDpiScaleForHwnd_fallback_witness:
  "GetDpiScaleForHwnd exact_quotient modern_desktop [JSBigInt 0x100] = Inr (JSNumber 2) \<and>
   GetDpiScaleForHwnd exact_quotient legacy_desktop [JSBigInt 0x100] = Inr (JSNumber (3 / 2)) \<and>
   GetDpiScaleForHwnd exact_quotient bare_process [JSBigInt 0x100] = Inr (JSNumber 1)"
proof -
  have a: "per_window_dpi_available modern_desktop"
    "GetDpiForWindow modern_desktop = Some (\<lambda>h. if h = 0x100 then 192 else 96)"
    by (simp_all add: per_window_dpi_available_def modern_desktop_def)
  have b: "user32 legacy_desktop \<and> \<not> per_window_dpi_available legacy_desktop"
    "GetDeviceCaps_LOGPIXELSX legacy_desktop (GetDC legacy_desktop (Int64Value 0x100)) = 144"
    by (simp_all add: per_window_dpi_available_def legacy_desktop_def)
  have c: "\<not> user32 bare_process"
    by (simp add: bare_process_def)
  have i: "Int64Value 0x100 = 0x100" by (simp add: Int64Value_def)
  from GetDpiScaleForHwnd_fallback [of modern_desktop exact_quotient "0x100" "[]"]
    GetDpiScaleForHwnd_fallback [of legacy_desktop exact_quotient "0x100" "[]"]
    GetDpiScaleForHwnd_fallback [of bare_process exact_quotient "0x100" "[]"] a b c
  show ?thesis by (simp add: i exact_quotient_def)
qed

text \<open>
  Claim C9: on a handle that is not a window, \<^verbatim>\<open>forceActivateWindow\<close> returns false
  and makes no call at all, so it links no input context; and for every argument and
  every answer of the operating system, the calls to \<^verbatim>\<open>AttachThreadInput\<close> are none, or
  one attach that failed, or one attach that succeeded followed by the detach of the same
  two threads, so that no attach is left without its detach.
\<close>

theorem ForceActivateWindow_balanced:
  "(\<not> IsWindow os (Int64Value b) \<longrightarrow>
      ForceActivateWindow os (JSBigInt b # rest) = (Inr (JSBoolean False), [])) \<and>
   unmatched_attaches (snd (ForceActivateWindow os info)) [] = [] \<and>
   (filter is_attach_call (snd (ForceActivateWindow os info)) = [] \<or>
    (\<exists>c f. filter is_attach_call (snd (ForceActivateWindow os info))
             = [AttachThreadInput c f True False]) \<or>
    (\<exists>c f d. filter is_attach_call (snd (ForceActivateWindow os info))
             = [AttachThreadInput c f True True, AttachThreadInput c f False d]))"
  by (auto simp: ForceActivateWindow_def Let_def split: list.splits jsval.splits)

theorem ForceActivateWindow_balanced_witness:
  "ForceActivateWindow busy_desktop [JSBigInt 0x300] = (Inr (JSBoolean False), []) \<and>
   ForceActivateWindow busy_desktop [JSBigInt 0x100] =
     (Inr (JSBoolean True),
      [AttachThreadInput 4 5 True True, ShowWindow 0x100, SetForegroundWindow 0x100,
       BringWindowToTop 0x100, SetFocus 0x100, AttachThreadInput 4 5 False True]) \<and>
   unmatched_attaches (snd (ForceActivateWindow busy_desktop [JSBigInt 0x100])) [] = []"
proof -
  have s: "\<not> IsWindow busy_desktop (Int64Value 0x300)"
    by (simp add: busy_desktop_def Int64Value_def)
  have r: "ForceActivateWindow busy_desktop [JSBigInt 0x100] =
     (Inr (JSBoolean True),
      [AttachThreadInput 4 5 True True, ShowWindow 0x100, SetForegroundWindow 0x100,
       BringWindowToTop 0x100, SetFocus 0x100, AttachThreadInput 4 5 False True])"
    by (simp add: ForceActivateWindow_def busy_desktop_def Int64Value_def Let_def)
  from ForceActivateWindow_balanced [of busy_desktop "0x300" "[]" "[JSBigInt 0x100]"] s r
  show ?thesis by blast
qed


end
